theory Spec2Isabelle
  imports Main "HOL-Library.Sublist" "HOL-Library.Word"
begin

section \<open>JavaScript strings and arrays\<close>

text \<open>
  A JavaScript string is a sequence of UTF-16 code units; \<open>length\<close>, \<open>slice\<close>,
  \<open>indexOf\<close>, \<open>startsWith\<close> and indexing all count code units. Program literals that
  are never compared with document text (token type names, console messages) are kept as
  Isabelle strings.
\<close>

type_synonym code_unit = "16 word"
type_synonym jsstring = "code_unit list"

text \<open>\<open>s.slice(b, e)\<close> for non-negative integers: both ends are clamped to the length,
  and the result is empty when \<open>e \<le> b\<close>. \<open>s.slice(b)\<close> is \<open>drop b s\<close>.\<close>

definition slice :: "jsstring \<Rightarrow> nat \<Rightarrow> nat \<Rightarrow> jsstring" where
  "slice s b e = take (e - b) (drop b s)"

text \<open>\<open>s.startsWith(p)\<close> is the literal prefix test \<^const>\<open>prefix\<close>.\<close>

abbreviation startsWith :: "jsstring \<Rightarrow> jsstring \<Rightarrow> bool" where
  "startsWith s p \<equiv> prefix p s"

text \<open>\<open>s.indexOf(r)\<close>: the least index at which \<open>r\<close> occurs, \<open>None\<close> for \<open>-1\<close>.
  The empty string occurs at index 0 of every string.\<close>

fun indexOf :: "jsstring \<Rightarrow> jsstring \<Rightarrow> nat option" where
  "indexOf [] r = (if r = [] then Some 0 else None)"
| "indexOf (c # s) r =
     (if startsWith (c # s) r then Some 0 else map_option Suc (indexOf s r))"

text \<open>\<open>s[i] === '\n'\<close>: reading past the end gives \<open>undefined\<close>, which is not a
  newline.\<close>

definition newline_at :: "jsstring \<Rightarrow> nat \<Rightarrow> bool" where
  "newline_at s i \<longleftrightarrow> i < length s \<and> s ! i = 0x0A"

text \<open>\<open>s.trim()\<close> strips the ECMAScript WhiteSpace and LineTerminator code points
  from both ends; all of them are single code units.\<close>

definition isWhiteSpace :: "code_unit \<Rightarrow> bool" where
  "isWhiteSpace c \<longleftrightarrow>
     c \<in> {0x09, 0x0A, 0x0B, 0x0C, 0x0D, 0x20, 0xA0, 0x1680, 0x2028, 0x2029,
          0x202F, 0x205F, 0x3000, 0xFEFF}
     \<or> (0x2000 \<le> c \<and> c \<le> 0x200A)"

definition trim :: "jsstring \<Rightarrow> jsstring" where
  "trim s = rev (dropWhile isWhiteSpace (rev (dropWhile isWhiteSpace s)))"

text \<open>\<open>a[i]\<close> on an array: \<open>undefined\<close> (here \<open>None\<close>) out of range.\<close>

definition at_index :: "'a list \<Rightarrow> nat \<Rightarrow> 'a option" where
  "at_index xs i = (if i < length xs then Some (xs ! i) else None)"

section \<open>Configuration\<close>

record delimiter =
  left :: jsstring
  right :: jsstring
  display :: bool

record options =
  delimiters :: "delimiter list"

text \<open>The default configuration: \<open>\[ \]\<close> for display and \<open>\( \)\<close> for inline
  (0x5C is the backslash).\<close>

definition defaultOptions :: options where
  "defaultOptions = \<lparr>delimiters =
     [\<lparr>left = [0x5C, 0x5B], right = [0x5C, 0x5D], display = True\<rparr>,
      \<lparr>left = [0x5C, 0x28], right = [0x5C, 0x29], display = False\<rparr>]\<rparr>"

section \<open>Collaborators: the typesetting engine, the console, the host's tokens\<close>

datatype js_exn = JsExn string

record katex_options =
  throwOnError :: bool
  output' :: string
  displayMode :: bool

text \<open>\<open>katex.renderToString(source, options)\<close> is a parameter of the model: it either
  returns markup (\<open>Inr\<close>) or throws (\<open>Inl\<close>).\<close>

type_synonym katex = "jsstring \<Rightarrow> katex_options \<Rightarrow> js_exn + jsstring"

text \<open>One \<open>console.error(message, e)\<close> call.\<close>

type_synonym log = "(string \<times> js_exn) list"

text \<open>The fields of the host's token that this program sets.\<close>

record token =
  type :: string
  tag :: string
  nesting :: int
  content :: jsstring
  map' :: "(nat \<times> nat) option"
  block :: bool

text \<open>\<open>new Token(type, tag, nesting)\<close> as the host's \<open>state.push\<close> creates it.\<close>

definition Token :: "string \<Rightarrow> string \<Rightarrow> int \<Rightarrow> token" where
  "Token ty tg n =
     \<lparr>type = ty, tag = tg, nesting = n, content = [], map' = None, block = False\<rparr>"

text \<open>The parser state shared by the host's block and inline states: the document
  buffer and the append-only token stream. The block state adds the line tables (offsets
  into the buffer, hence natural numbers) and the current line, the inline state the
  cursor and the inline bound.\<close>

record state =
  src :: jsstring
  tokens :: "token list"

record state_block = state +
  bMarks :: "nat list"
  tShift :: "nat list"
  eMarks :: "nat list"
  line :: nat

record state_inline = state +
  pos :: nat
  posMax :: nat

text \<open>Modelled from the spec: the host's \<open>state.push\<close>, which appends a new token to
  the append-only stream. The source writes \<open>const token = state.push(type, tag, nesting)\<close>
  and then assigns the token's fields: the token object sits at the end of the stream
  while it is filled in, so the stream ends with the filled-in token.\<close>

definition push :: "token \<Rightarrow> ('a state_scheme) \<Rightarrow> ('a state_scheme)" where
  "push t st = st\<lparr>tokens := tokens st @ [t]\<rparr>"

section \<open>The block rule\<close>

text \<open>\<open>state.src.slice(state.bMarks[l] + state.tShift[l], state.eMarks[l])\<close>. A line
  index outside the tables reads \<open>undefined\<close>: the sum is then \<open>NaN\<close>, which
  \<open>slice\<close> takes as 0, and an \<open>undefined\<close> end is the end of the string.\<close>

definition line_text :: "'a state_block_scheme \<Rightarrow> nat \<Rightarrow> jsstring" where
  "line_text st l =
     (let b = (case (at_index (bMarks st) l, at_index (tShift st) l) of
                 (Some m, Some t) \<Rightarrow> m + t
               | _ \<Rightarrow> 0);
          e = (case at_index (eMarks st) l of Some m \<Rightarrow> m | None \<Rightarrow> length (src st))
      in slice (src st) b e)"

text \<open>The outcome of the search for the closing delimiter (lines 37 to 86):
  \<open>Reject\<close> is the early \<open>return false\<close> on trailing content, \<open>Scanned\<close> carries the
  variables \<open>found\<close>, \<open>content\<close> and \<open>nextLine\<close> as they are after the search.\<close>

datatype scan = Reject | Scanned bool jsstring nat

text \<open>The \<open>while (nextLine < endLine)\<close> loop over the lines after the opening one.\<close>

function scan_lines :: "'a state_block_scheme \<Rightarrow> jsstring \<Rightarrow> nat \<Rightarrow> jsstring \<Rightarrow> nat \<Rightarrow> scan" where
  "scan_lines st rgt endLine cont nextLine =
     (if nextLine < endLine then
        (let currentLine = line_text st nextLine in
         case indexOf currentLine rgt of
           Some rightPos \<Rightarrow>
             if trim (drop (rightPos + length rgt) currentLine) \<noteq> [] then Reject
             else Scanned True (cont @ take rightPos currentLine) (nextLine + 1)
         | None \<Rightarrow> scan_lines st rgt endLine (cont @ currentLine @ [0x0A]) (nextLine + 1))
      else Scanned False cont nextLine)"
  by pat_completeness auto
termination
  by (relation "measure (\<lambda>(st, rgt, endLine, cont, nextLine). endLine - nextLine)") auto

text \<open>Lines 42 to 86: the search on the opening line, then on the following ones.\<close>

definition scan_close :: "'a state_block_scheme \<Rightarrow> delimiter \<Rightarrow> jsstring \<Rightarrow> nat \<Rightarrow> nat \<Rightarrow> scan" where
  "scan_close st matchedDelimiter lineText startLine endLine =
     (let firstLineContent = drop (length (left matchedDelimiter)) lineText;
          rgt = right matchedDelimiter
      in case indexOf firstLineContent rgt of
           Some rightPosInFirstLine \<Rightarrow>
             if trim (drop (rightPosInFirstLine + length rgt) firstLineContent) \<noteq> []
             then Reject
             else Scanned True (take rightPosInFirstLine firstLineContent) (startLine + 1)
         | None \<Rightarrow>
             scan_lines st rgt endLine (firstLineContent @ [0x0A]) (startLine + 1))"

text \<open>A rule returns its boolean, the parser state after the call and what it wrote
  to the console.\<close>

type_synonym 's outcome = "bool \<times> 's \<times> log"

definition mathBlockRule ::
  "options \<Rightarrow> katex \<Rightarrow> 'a state_block_scheme \<Rightarrow> nat \<Rightarrow> nat \<Rightarrow> bool \<Rightarrow> 'a state_block_scheme outcome" where
  "mathBlockRule opts katex st startLine endLine silent =
     (let displayDelimiters = filter display (delimiters opts);
          lineText = line_text st startLine
      in case find (\<lambda>delim. startsWith lineText (left delim)) displayDelimiters of
           None \<Rightarrow> (False, st, [])
         | Some matchedDelimiter \<Rightarrow>
             (case scan_close st matchedDelimiter lineText startLine endLine of
                Reject \<Rightarrow> (False, st, [])
              | Scanned found cont nextLine \<Rightarrow>
                  if \<not> found then (False, st, [])
                  else if silent then (True, st, [])
                  else (case katex (trim cont)
                               \<lparr>throwOnError = False, output' = ''mathml'', displayMode = True\<rparr> of
                          Inl e \<Rightarrow> (False, st, [(''KaTeX block rendering error:'', e)])
                        | Inr renderedContent \<Rightarrow>
                            (True,
                             (push ((Token ''math_block'' ''math'' 0)
                                      \<lparr>content := renderedContent,
                                       map' := Some (startLine, nextLine),
                                       block := True\<rparr>) st)
                               \<lparr>line := nextLine\<rparr>,
                             []))))"

section \<open>The inline rule\<close>

text \<open>The \<open>while (pos < max)\<close> loop of lines 131 to 138: the position at which it
  stops.\<close>

function walk :: "jsstring \<Rightarrow> jsstring \<Rightarrow> nat \<Rightarrow> nat \<Rightarrow> nat" where
  "walk s rgt mx p =
     (if p < mx then
        (if newline_at s p then p
         else if startsWith (drop p s) rgt then p
         else walk s rgt mx (p + 1))
      else p)"
  by pat_completeness auto
termination
  by (relation "measure (\<lambda>(s, rgt, mx, p). mx - p)") auto

text \<open>Lines 125 to 142 for one pair: \<open>None\<close> where the source says \<open>continue\<close>,
  otherwise the position of the closing delimiter.\<close>

definition try_pair :: "'a state_inline_scheme \<Rightarrow> delimiter \<Rightarrow> nat option" where
  "try_pair st d =
     (let mx = posMax st; start = pos st in
      if \<not> startsWith (drop start (src st)) (left d) then None
      else
        (let p = walk (src st) (right d) mx (start + length (left d)) in
         if p \<ge> mx \<or> newline_at (src st) p then None
         else if \<not> startsWith (drop p (src st)) (right d) then None
         else Some p))"

text \<open>Lines 145 to 162: the pair has matched with its closing delimiter at \<open>p\<close>.\<close>

definition emit_inline ::
  "katex \<Rightarrow> 'a state_inline_scheme \<Rightarrow> bool \<Rightarrow> delimiter \<Rightarrow> nat \<Rightarrow> 'a state_inline_scheme outcome" where
  "emit_inline katex st silent d p =
     (let start = pos st;
          (st', lg) =
            (if \<not> silent then
               (let cont = slice (src st) (start + length (left d)) p in
                case katex cont
                       \<lparr>throwOnError = False, output' = ''mathml'', displayMode = display d\<rparr> of
                  Inr renderedContent \<Rightarrow>
                    (push ((Token ''html_inline'' '''' 0)\<lparr>content := renderedContent\<rparr>) st, [])
                | Inl e \<Rightarrow> (st, [(''KaTeX inline rendering error:'', e)]))
             else (st, []))
      in (True, st'\<lparr>pos := p + length (right d)\<rparr>, lg))"

text \<open>The \<open>for (const {left, right, display} of options.delimiters)\<close> loop.\<close>

fun inline_pairs ::
  "katex \<Rightarrow> 'a state_inline_scheme \<Rightarrow> bool \<Rightarrow> delimiter list \<Rightarrow> 'a state_inline_scheme outcome" where
  "inline_pairs katex st silent [] = (False, st, [])"
| "inline_pairs katex st silent (d # ds) =
     (case try_pair st d of
        None \<Rightarrow> inline_pairs katex st silent ds
      | Some p \<Rightarrow> emit_inline katex st silent d p)"

definition mathInlineRule ::
  "options \<Rightarrow> katex \<Rightarrow> 'a state_inline_scheme \<Rightarrow> bool \<Rightarrow> 'a state_inline_scheme outcome" where
  "mathInlineRule opts katex st silent = inline_pairs katex st silent (delimiters opts)"

section \<open>The renderer\<close>

datatype js_error = TypeError

text \<open>\<open>tokens[idx].content\<close>: reading a property of \<open>undefined\<close> throws.\<close>

definition mathBlockRenderer :: "token list \<Rightarrow> nat \<Rightarrow> js_error + jsstring" where
  "mathBlockRenderer toks idx =
     (case at_index toks idx of
        None \<Rightarrow> Inl TypeError
      | Some t \<Rightarrow> Inr (content t))"

section \<open>Registration\<close>

text \<open>Modelled from the spec: the host's rule chains and renderer table, which are not
  part of this program. A chain is an ordered list of named rules into which a rule can
  be inserted before or after a named one (an unknown name is an error); the renderer
  table maps a token kind to its renderer.\<close>

datatype host_error = RuleNotFound string

text \<open>The index of the rule with the given name, \<open>None\<close> when there is none.\<close>

fun find_rule :: "string \<Rightarrow> (string \<times> 'r) list \<Rightarrow> nat option" where
  "find_rule name [] = None"
| "find_rule name (r # rules) =
     (if fst r = name then Some 0 else map_option Suc (find_rule name rules))"

definition ruler_before ::
  "string \<Rightarrow> string \<Rightarrow> 'r \<Rightarrow> (string \<times> 'r) list \<Rightarrow> host_error + (string \<times> 'r) list" where
  "ruler_before beforeName ruleName fn rules =
     (case find_rule beforeName rules of
        None \<Rightarrow> Inl (RuleNotFound beforeName)
      | Some i \<Rightarrow> Inr (take i rules @ [(ruleName, fn)] @ drop i rules))"

definition ruler_after ::
  "string \<Rightarrow> string \<Rightarrow> 'r \<Rightarrow> (string \<times> 'r) list \<Rightarrow> host_error + (string \<times> 'r) list" where
  "ruler_after afterName ruleName fn rules =
     (case find_rule afterName rules of
        None \<Rightarrow> Inl (RuleNotFound afterName)
      | Some i \<Rightarrow> Inr (take (i + 1) rules @ [(ruleName, fn)] @ drop (i + 1) rules))"

type_synonym block_rule = "state_block \<Rightarrow> nat \<Rightarrow> nat \<Rightarrow> bool \<Rightarrow> state_block outcome"
type_synonym inline_rule = "state_inline \<Rightarrow> bool \<Rightarrow> state_inline outcome"
type_synonym renderer_rule = "token list \<Rightarrow> nat \<Rightarrow> js_error + jsstring"

record markdown_it =
  block_ruler :: "(string \<times> block_rule) list"
  inline_ruler :: "(string \<times> inline_rule) list"
  renderer_rules :: "string \<rightharpoonup> renderer_rule"

text \<open>The default export, \<open>function (md, options = defaultOptions)\<close>: an absent
  second argument is \<open>None\<close>. An exception of the host leaves the function at once.\<close>

definition plugin :: "katex \<Rightarrow> markdown_it \<Rightarrow> options option \<Rightarrow> host_error + markdown_it" where
  "plugin katex md options_arg =
     (let opts = (case options_arg of None \<Rightarrow> defaultOptions | Some v \<Rightarrow> v) in
      case ruler_before ''fence'' ''math_block'' (mathBlockRule opts katex) (block_ruler md) of
        Inl e \<Rightarrow> Inl e
      | Inr br \<Rightarrow>
          (case ruler_after ''text'' ''math_inline'' (mathInlineRule opts katex) (inline_ruler md) of
             Inl e \<Rightarrow> Inl e
           | Inr ir \<Rightarrow>
               Inr (md\<lparr>block_ruler := br, inline_ruler := ir,
                       renderer_rules := (renderer_rules md)(''math_block'' \<mapsto> mathBlockRenderer)\<rparr>)))"

section \<open>Vocabulary of the properties\<close>

text \<open>The text of line \<open>j\<close> in which the block rule searches for the closing
  delimiter: on the opening line the part after \<open>left\<close>, on a later line all of it.\<close>

definition searched :: "'a state_block_scheme \<Rightarrow> delimiter \<Rightarrow> nat \<Rightarrow> nat \<Rightarrow> jsstring" where
  "searched st d startLine j =
     (if j = startLine then drop (length (left d)) (line_text st j) else line_text st j)"

text \<open>The closing delimiter is found on line \<open>k\<close> at offset \<open>rp\<close> of the searched
  text: no searched line before \<open>k\<close> contains \<open>right\<close>, and \<open>rp\<close> is its first
  occurrence on line \<open>k\<close>. Only lines before \<open>endLine\<close> are searched, apart from the
  opening line, which always is.\<close>

definition closes_on :: "'a state_block_scheme \<Rightarrow> delimiter \<Rightarrow> nat \<Rightarrow> nat \<Rightarrow> nat \<Rightarrow> nat \<Rightarrow> bool" where
  "closes_on st d startLine endLine k rp \<longleftrightarrow>
     startLine \<le> k \<and> (k = startLine \<or> k < endLine)
     \<and> (\<forall>j \<in> {startLine..<k}. indexOf (searched st d startLine j) (right d) = None)
     \<and> indexOf (searched st d startLine k) (right d) = Some rp"

text \<open>What follows the closing delimiter on its line, trimmed.\<close>

definition trailing :: "'a state_block_scheme \<Rightarrow> delimiter \<Rightarrow> nat \<Rightarrow> nat \<Rightarrow> nat \<Rightarrow> jsstring" where
  "trailing st d startLine k rp =
     trim (drop (rp + length (right d)) (searched st d startLine k))"

text \<open>The raw content between the delimiters when the closing one is on line \<open>k\<close> at
  offset \<open>rp\<close>: every searched line before \<open>k\<close> followed by a newline, then the
  closing line up to \<open>right\<close>.\<close>

definition captured :: "'a state_block_scheme \<Rightarrow> delimiter \<Rightarrow> nat \<Rightarrow> nat \<Rightarrow> nat \<Rightarrow> jsstring" where
  "captured st d startLine k rp =
     concat (List.map (\<lambda>j. searched st d startLine j @ [0x0A]) [startLine..<k])
       @ take rp (searched st d startLine k)"

text \<open>Inline: the first position after \<open>left\<close>, strictly before \<open>posMax\<close>, at which
  \<open>right\<close> occurs, with no newline from the end of \<open>left\<close> up to and including it.\<close>

definition closes_at :: "'a state_inline_scheme \<Rightarrow> delimiter \<Rightarrow> nat \<Rightarrow> bool" where
  "closes_at st d p \<longleftrightarrow>
     startsWith (drop (pos st) (src st)) (left d)
     \<and> pos st + length (left d) \<le> p \<and> p < posMax st
     \<and> startsWith (drop p (src st)) (right d)
     \<and> (\<forall>n \<in> {pos st + length (left d)..<p}. \<not> startsWith (drop n (src st)) (right d))
     \<and> (\<forall>n \<in> {pos st + length (left d)..p}. \<not> newline_at (src st) n)"

text \<open>Inline: the walk after \<open>left\<close> hits a newline or the bound before it finds
  \<open>right\<close>: every occurrence of \<open>right\<close> before \<open>posMax\<close> has a newline at or before
  it.\<close>

definition unclosed :: "'a state_inline_scheme \<Rightarrow> delimiter \<Rightarrow> bool" where
  "unclosed st d \<longleftrightarrow>
     (\<forall>q \<in> {pos st + length (left d)..<posMax st}.
        startsWith (drop q (src st)) (right d) \<longrightarrow>
          (\<exists>n \<in> {pos st + length (left d)..q}. newline_at (src st) n))"

text \<open>Inline: the pair does not match at the cursor.\<close>

definition fails_at :: "'a state_inline_scheme \<Rightarrow> delimiter \<Rightarrow> bool" where
  "fails_at st d \<longleftrightarrow> \<not> startsWith (drop (pos st) (src st)) (left d) \<or> unclosed st d"

text \<open>Two stand-ins for the typesetting engine, for concrete runs: one that always
  throws and one that returns its input as the markup.\<close>

definition katex_throws :: katex where
  "katex_throws source opts = Inl (JsExn ''ParseError'')"

definition katex_echo :: katex where
  "katex_echo source opts = Inr source"

text \<open>The token the block rule appends and the options it gives the engine, as
  lines 95 to 104 write them.\<close>

definition block_token :: "jsstring \<Rightarrow> nat \<Rightarrow> nat \<Rightarrow> token" where
  "block_token renderedContent startLine nextLine =
     \<lparr>type = ''math_block'', tag = ''math'', nesting = 0, content = renderedContent,
      map' = Some (startLine, nextLine), block = True\<rparr>"

definition display_katex_options :: katex_options where
  "display_katex_options = \<lparr>throwOnError = False, output' = ''mathml'', displayMode = True\<rparr>"

text \<open>The token the inline rule appends, as lines 153 and 154 write it.\<close>

definition inline_token :: "jsstring \<Rightarrow> token" where
  "inline_token renderedContent =
     \<lparr>type = ''html_inline'', tag = '''', nesting = 0, content = renderedContent,
      map' = None, block = False\<rparr>"

section \<open>Concrete documents\<close>

text \<open>The two default pairs.\<close>

definition display_pair :: delimiter where
  "display_pair = \<lparr>left = [0x5C, 0x5B], right = [0x5C, 0x5D], display = True\<rparr>"

definition inline_pair :: delimiter where
  "inline_pair = \<lparr>left = [0x5C, 0x28], right = [0x5C, 0x29], display = False\<rparr>"

text \<open>The line \<open>\(x\)\<close> with the cursor at its start.\<close>

definition ex_inline :: state_inline where
  "ex_inline = \<lparr>src = [0x5C, 0x28, 0x78, 0x5C, 0x29], tokens = [], pos = 0, posMax = 5\<rparr>"

text \<open>\<open>\(x\<close>, a newline, \<open>\)\<close>: the closing delimiter is behind a newline.\<close>

definition ex_newline :: state_inline where
  "ex_newline =
     \<lparr>src = [0x5C, 0x28, 0x78, 0x0A, 0x5C, 0x29], tokens = [], pos = 0, posMax = 6\<rparr>"

text \<open>\<open>\(x\)\<close> again, the inline bound one short of the end of the text, as the
  host sets it while it parses a nested span.\<close>

definition ex_overrun :: state_inline where
  "ex_overrun = \<lparr>src = [0x5C, 0x28, 0x78, 0x5C, 0x29], tokens = [], pos = 0, posMax = 4\<rparr>"

text \<open>The three lines \<open>\[\<close>, \<open> x+y \<close>, \<open>\]\<close>; the line tables carry the host's
  closing entry.\<close>

definition ex_block :: state_block where
  "ex_block =
     \<lparr>src = [0x5C, 0x5B, 0x0A, 0x20, 0x78, 0x2B, 0x79, 0x20, 0x0A, 0x5C, 0x5D],
      tokens = [],
      bMarks = [0, 3, 9, 11], tShift = [0, 1, 0, 0], eMarks = [2, 8, 11, 11], line = 0\<rparr>"

text \<open>The line \<open>\[x\] t\<close>.\<close>

definition ex_trailing :: state_block where
  "ex_trailing =
     \<lparr>src = [0x5C, 0x5B, 0x78, 0x5C, 0x5D, 0x20, 0x74], tokens = [],
      bMarks = [0, 7], tShift = [0, 0], eMarks = [7, 7], line = 0\<rparr>"

text \<open>The two lines \<open>\[\<close> and \<open>x\] t\<close>.\<close>

definition ex_trailing_later :: state_block where
  "ex_trailing_later =
     \<lparr>src = [0x5C, 0x5B, 0x0A, 0x78, 0x5C, 0x5D, 0x20, 0x74], tokens = [],
      bMarks = [0, 3, 8], tShift = [0, 0, 0], eMarks = [2, 8, 8], line = 0\<rparr>"

text \<open>The two lines \<open>\[x\<close> and \<open>y\<close>: an opener that is never closed.\<close>

definition ex_unclosed :: state_block where
  "ex_unclosed =
     \<lparr>src = [0x5C, 0x5B, 0x78, 0x0A, 0x79], tokens = [],
      bMarks = [0, 4, 5], tShift = [0, 0, 0], eMarks = [3, 5, 5], line = 0\<rparr>"

text \<open>The line \<open>x\<close>.\<close>

definition ex_plain :: state_block where
  "ex_plain = \<lparr>src = [0x78], tokens = [], bMarks = [0, 1], tShift = [0, 0], eMarks = [1, 1], line = 0\<rparr>"

text \<open>Further pairs: \<open>\(\<close> closed by \<open>\]\<close>; \<open>\[\<close> closed by \<open>\)\<close>, once with
  and once without the display flag; \<open>\[ \]\<close> without the display flag; and display
  pairs of dollar signs, \<open>$$ $$\<close> and \<open>\[ $\<close>.\<close>

definition paren_bracket_pair :: delimiter where
  "paren_bracket_pair = \<lparr>left = [0x5C, 0x28], right = [0x5C, 0x5D], display = False\<rparr>"

definition bracket_paren_display :: delimiter where
  "bracket_paren_display = \<lparr>left = [0x5C, 0x5B], right = [0x5C, 0x29], display = True\<rparr>"

definition bracket_paren_inline :: delimiter where
  "bracket_paren_inline = \<lparr>left = [0x5C, 0x5B], right = [0x5C, 0x29], display = False\<rparr>"

definition bracket_inline :: delimiter where
  "bracket_inline = \<lparr>left = [0x5C, 0x5B], right = [0x5C, 0x5D], display = False\<rparr>"

definition dollar_display :: delimiter where
  "dollar_display = \<lparr>left = [0x24, 0x24], right = [0x24, 0x24], display = True\<rparr>"

definition bracket_dollar_display :: delimiter where
  "bracket_dollar_display = \<lparr>left = [0x5C, 0x5B], right = [0x24], display = True\<rparr>"

text \<open>Configurations over them: a pair that cannot close before \<open>\( \)\<close>; a
  non-display pair and a display pair that does not open before two display pairs that
  both open; a display pair whose close is followed by text, and one that never closes,
  each before \<open>\[ \]\<close>; and \<open>\[ \]\<close> without the display flag alone.\<close>

definition opts_fallthrough :: options where
  "opts_fallthrough = \<lparr>delimiters = [paren_bracket_pair, inline_pair]\<rparr>"

definition opts_order :: options where
  "opts_order = \<lparr>delimiters =
     [bracket_paren_inline, dollar_display, display_pair, bracket_paren_display]\<rparr>"

definition opts_trailing_first :: options where
  "opts_trailing_first = \<lparr>delimiters = [bracket_paren_display, display_pair]\<rparr>"

definition opts_unclosed_first :: options where
  "opts_unclosed_first = \<lparr>delimiters = [bracket_dollar_display, display_pair]\<rparr>"

definition opts_inline_only :: options where
  "opts_inline_only = \<lparr>delimiters = [bracket_inline]\<rparr>"

text \<open>The line \<open>\(x\)\<close>, a newline, \<open>\]\<close>, with the cursor at the start: \<open>\)\<close> is on
  the first line, \<open>\]\<close> behind the newline.\<close>

definition ex_fallthrough :: state_inline where
  "ex_fallthrough =
     \<lparr>src = [0x5C, 0x28, 0x78, 0x5C, 0x29, 0x0A, 0x5C, 0x5D], tokens = [],
      pos = 0, posMax = 8\<rparr>"

text \<open>The line \<open>\[a\)b\]\<close>.\<close>

definition ex_order :: state_block where
  "ex_order =
     \<lparr>src = [0x5C, 0x5B, 0x61, 0x5C, 0x29, 0x62, 0x5C, 0x5D], tokens = [],
      bMarks = [0, 8], tShift = [0, 0], eMarks = [8, 8], line = 0\<rparr>"

text \<open>A host with the two rules the registration names and an empty renderer table.\<close>

definition host_block_rule :: block_rule where
  "host_block_rule st startLine endLine silent = (False, st, [])"

definition host_inline_rule :: inline_rule where
  "host_inline_rule st silent = (False, st, [])"

definition host_md :: markdown_it where
  "host_md =
     \<lparr>block_ruler = [(''fence'', host_block_rule)],
      inline_ruler = [(''text'', host_inline_rule)],
      renderer_rules = Map.empty\<rparr>"

section \<open>The inline rule: what the walk finds\<close>

text \<open>The recursion equations of the two loops are applied by hand.\<close>

declare walk.simps [simp del]

declare scan_lines.simps [simp del]

lemma walk_halt:
  "\<not> p < mx \<or> newline_at s p \<or> startsWith (drop p s) r \<Longrightarrow> walk s r mx p = p"
  by (subst walk.simps) auto

lemma walk_step:
  "p < mx \<Longrightarrow> \<not> newline_at s p \<Longrightarrow> \<not> startsWith (drop p s) r
     \<Longrightarrow> walk s r mx p = walk s r mx (Suc p)"
  by (subst walk.simps) simp

lemma walk_ge: "a \<le> walk s r mx a"
proof (induction s r mx a rule: walk.induct)
  case (1 s rgt mx p)
  show ?case
  proof (cases "p < mx \<and> \<not> newline_at s p \<and> \<not> startsWith (drop p s) rgt")
    case True
    with 1 have "p + 1 \<le> walk s rgt mx (p + 1)" by simp
    with True show ?thesis by (simp add: walk_step)
  next
    case False
    then show ?thesis by (simp add: walk_halt)
  qed
qed

lemma walk_stop:
  "walk s r mx a < mx \<Longrightarrow>
     newline_at s (walk s r mx a) \<or> startsWith (drop (walk s r mx a) s) r"
proof (induction s r mx a rule: walk.induct)
  case (1 s rgt mx p)
  show ?case
  proof (cases "p < mx \<and> \<not> newline_at s p \<and> \<not> startsWith (drop p s) rgt")
    case True
    then have eq: "walk s rgt mx p = walk s rgt mx (p + 1)" by (simp add: walk_step)
    with 1 True show ?thesis by simp
  next
    case False
    then have "walk s rgt mx p = p" by (simp add: walk_halt)
    with False 1(2) show ?thesis by auto
  qed
qed

lemma walk_before:
  "a \<le> n \<Longrightarrow> n < walk s r mx a \<Longrightarrow>
     n < mx \<and> \<not> newline_at s n \<and> \<not> startsWith (drop n s) r"
proof (induction s r mx a rule: walk.induct)
  case (1 s rgt mx p)
  show ?case
  proof (cases "p < mx \<and> \<not> newline_at s p \<and> \<not> startsWith (drop p s) rgt")
    case True
    then have eq: "walk s rgt mx p = walk s rgt mx (p + 1)" by (simp add: walk_step)
    show ?thesis
    proof (cases "n = p")
      case True
      with \<open>p < mx \<and> \<not> newline_at s p \<and> \<not> startsWith (drop p s) rgt\<close> show ?thesis by simp
    next
      case False
      with 1(2) have "p + 1 \<le> n" by simp
      moreover from 1(3) eq have "n < walk s rgt mx (p + 1)" by simp
      ultimately show ?thesis using 1(1) True by simp
    qed
  next
    case False
    then have "walk s rgt mx p = p" by (simp add: walk_halt)
    with 1(2,3) show ?thesis by simp
  qed
qed

lemma try_pair_None_iff: "try_pair st d = None \<longleftrightarrow> fails_at st d"
proof (cases "startsWith (drop (pos st) (src st)) (left d)")
  case False
  then show ?thesis by (simp add: try_pair_def fails_at_def)
next
  case True
  define a where "a = pos st + length (left d)"
  define w where "w = walk (src st) (right d) (posMax st) a"
  have ge: "a \<le> w" unfolding w_def by (rule walk_ge)
  have none: "try_pair st d = None \<longleftrightarrow> posMax st \<le> w \<or> newline_at (src st) w"
  proof (cases "w < posMax st")
    case lt: True
    then have "newline_at (src st) w \<or> startsWith (drop w (src st)) (right d)"
      using walk_stop [of "src st" "right d" "posMax st" a] by (simp add: w_def)
    with lt True show ?thesis
      by (auto simp: try_pair_def Let_def w_def [symmetric] a_def [symmetric])
  next
    case False
    with True show ?thesis
      by (simp add: try_pair_def Let_def w_def [symmetric] a_def [symmetric])
  qed
  have "unclosed st d \<longleftrightarrow> posMax st \<le> w \<or> newline_at (src st) w"
  proof
    assume u: "unclosed st d"
    show "posMax st \<le> w \<or> newline_at (src st) w"
    proof (rule ccontr)
      assume neg: "\<not> (posMax st \<le> w \<or> newline_at (src st) w)"
      then have lt: "w < posMax st" and nn: "\<not> newline_at (src st) w" by auto
      from lt nn have sw: "startsWith (drop w (src st)) (right d)"
        using walk_stop [of "src st" "right d" "posMax st" a] by (simp add: w_def)
      from ge lt have "w \<in> {a..<posMax st}" by simp
      with u sw have "\<exists>n\<in>{a..w}. newline_at (src st) n"
        unfolding unclosed_def a_def [symmetric] by blast
      then obtain n where n: "a \<le> n" "n \<le> w" "newline_at (src st) n"
        by auto
      show False
      proof (cases "n = w")
        case True with n nn show False by simp
      next
        case False
        with n have "n < w" by simp
        with n(1) n(3) show False
          using walk_before [of a n "src st" "right d" "posMax st"] by (simp add: w_def)
      qed
    qed
  next
    assume h: "posMax st \<le> w \<or> newline_at (src st) w"
    show "unclosed st d"
      unfolding unclosed_def
    proof (intro ballI impI)
      fix q assume q: "q \<in> {pos st + length (left d)..<posMax st}"
        and sw: "startsWith (drop q (src st)) (right d)"
      from q have aq: "a \<le> q" and qm: "q < posMax st" by (auto simp: a_def)
      have "\<not> q < w"
        using walk_before [of a q "src st" "right d" "posMax st"] aq sw by (auto simp: w_def)
      then have wq: "w \<le> q" by simp
      with qm h have "newline_at (src st) w" by simp
      with ge wq show "\<exists>n\<in>{pos st + length (left d)..q}. newline_at (src st) n"
        by (auto simp: a_def intro!: bexI [of _ w])
    qed
  qed
  with none True show ?thesis by (simp add: fails_at_def)
qed

lemma try_pair_Some_iff: "try_pair st d = Some p \<longleftrightarrow> closes_at st d p"
proof (cases "startsWith (drop (pos st) (src st)) (left d)")
  case False
  then show ?thesis by (simp add: try_pair_def closes_at_def)
next
  case True
  define a where "a = pos st + length (left d)"
  define w where "w = walk (src st) (right d) (posMax st) a"
  have ge: "a \<le> w" unfolding w_def by (rule walk_ge)
  have some: "try_pair st d = Some p \<longleftrightarrow>
      p = w \<and> w < posMax st \<and> \<not> newline_at (src st) w \<and> startsWith (drop w (src st)) (right d)"
    using True by (auto simp: try_pair_def Let_def w_def a_def)
  show ?thesis
  proof
    assume "try_pair st d = Some p"
    with some have p: "p = w" "w < posMax st" "\<not> newline_at (src st) w"
      "startsWith (drop w (src st)) (right d)" by auto
    have "\<forall>n\<in>{a..<w}. \<not> startsWith (drop n (src st)) (right d) \<and> \<not> newline_at (src st) n"
      using walk_before [of a _ "src st" "right d" "posMax st"] by (auto simp: w_def)
    with p ge True show "closes_at st d p"
      unfolding closes_at_def a_def [symmetric]
      by (auto simp: le_less)
  next
    assume c: "closes_at st d p"
    then have ap: "a \<le> p" and pm: "p < posMax st"
      and sw: "startsWith (drop p (src st)) (right d)"
      and nr: "\<forall>n\<in>{a..<p}. \<not> startsWith (drop n (src st)) (right d)"
      and nn: "\<forall>n\<in>{a..p}. \<not> newline_at (src st) n"
      by (auto simp: closes_at_def a_def)
    have "\<not> p < w"
      using walk_before [of a p "src st" "right d" "posMax st"] ap sw by (auto simp: w_def)
    moreover have "\<not> w < p"
    proof
      assume wp: "w < p"
      with pm have "w < posMax st" by simp
      then have "newline_at (src st) w \<or> startsWith (drop w (src st)) (right d)"
        using walk_stop [of "src st" "right d" "posMax st" a] by (simp add: w_def)
      with nr nn ge wp show False by auto
    qed
    ultimately have "p = w" by simp
    with some pm sw nn ap show "try_pair st d = Some p" by auto
  qed
qed

lemma inline_pairs_skip:
  "\<forall>d' \<in> set dsa. fails_at st d' \<Longrightarrow>
     inline_pairs katex st silent (dsa @ ds) = inline_pairs katex st silent ds"
  by (induction dsa) (simp_all add: try_pair_None_iff [symmetric])

lemma inline_pairs_match:
  assumes "\<forall>d' \<in> set dsa. fails_at st d'" and "closes_at st d p"
  shows "inline_pairs katex st silent (dsa @ d # dsb) = emit_inline katex st silent d p"
proof -
  from assms(2) have "try_pair st d = Some p" by (simp add: try_pair_Some_iff)
  then show ?thesis using assms(1) by (simp add: inline_pairs_skip)
qed

text \<open>A scan that returns false has changed nothing and logged nothing.\<close>

lemma emit_inline_true: "fst (emit_inline katex st silent d p)"
  by (simp add: emit_inline_def Let_def split: prod.splits)

lemma inline_pairs_false_frame:
  "\<not> fst (inline_pairs katex st silent ds) \<Longrightarrow>
     inline_pairs katex st silent ds = (False, st, [])"
  by (induction ds) (auto simp: emit_inline_true split: option.splits)

lemma mathInlineRule_false_frame:
  "\<not> fst (mathInlineRule opts katex st silent) \<Longrightarrow>
     mathInlineRule opts katex st silent = (False, st, [])"
  unfolding mathInlineRule_def by (rule inline_pairs_false_frame)

lemma ex_inline_closes: "closes_at ex_inline inline_pair 3"
  by (simp add: closes_at_def ex_inline_def inline_pair_def newline_at_def
      atLeastLessThan_upt atLeastAtMost_upt upt_rec)

lemma ex_inline_try: "try_pair ex_inline display_pair = None" "try_pair ex_inline inline_pair = Some 3"
  by (simp_all add: try_pair_def ex_inline_def display_pair_def inline_pair_def walk.simps newline_at_def)

lemma ex_inline_fails: "fails_at ex_inline display_pair"
  by (simp add: fails_at_def ex_inline_def display_pair_def)

text \<open>Claim C1, as the code has it. When the pairs before \<open>d\<close> fail at the cursor and
  \<open>d\<close> closes at \<open>p\<close>, a silent inline scan returns true, appends no token, writes
  nothing to the console and does not depend on the typesetting engine; the one field it
  changes is the cursor, which it sets just past \<open>right\<close>.\<close>

theorem silent_probe_moves_cursor:
  assumes "delimiters opts = dsa @ d # dsb"
    and "\<forall>d' \<in> set dsa. fails_at st d'"
    and "closes_at st d p"
  shows "mathInlineRule opts katex st True = (True, st\<lparr>pos := p + length (right d)\<rparr>, [])"
  using assms by (simp add: mathInlineRule_def inline_pairs_match emit_inline_def)

theorem silent_probe_moves_cursor_witness:
  "mathInlineRule defaultOptions katex_throws ex_inline True = (True, ex_inline\<lparr>pos := 5\<rparr>, [])"
  using silent_probe_moves_cursor [where opts = defaultOptions and dsa = "[display_pair]"
      and d = inline_pair and dsb = "[]" and st = ex_inline and p = 3 and katex = katex_throws]
    ex_inline_closes ex_inline_fails
  by (simp add: defaultOptions_def display_pair_def inline_pair_def)

text \<open>Claim C1 as stated (a silent scan that finds \<open>right\<close> leaves the cursor
  unchanged) fails on the line \<open>\(x\)\<close> with the default pairs: the scan returns true and
  the cursor moves from 0 to 5.\<close>

theorem silent_probe_counterexample:
  "closes_at ex_inline inline_pair 3
   \<and> fst (mathInlineRule defaultOptions katex_echo ex_inline True)
   \<and> pos (fst (snd (mathInlineRule defaultOptions katex_echo ex_inline True))) \<noteq> pos ex_inline"
proof -
  have "mathInlineRule defaultOptions katex_echo ex_inline True =
      emit_inline katex_echo ex_inline True inline_pair 3"
    using ex_inline_try
    by (simp add: mathInlineRule_def defaultOptions_def display_pair_def inline_pair_def)
  moreover have "emit_inline katex_echo ex_inline True inline_pair 3 = (True, ex_inline\<lparr>pos := 5\<rparr>, [])"
    by (simp add: emit_inline_def inline_pair_def)
  moreover have "pos ex_inline = 0" by (simp add: ex_inline_def)
  ultimately show ?thesis using ex_inline_closes by simp
qed

text \<open>Claim C2. A non-silent inline scan that finds a matching pair and whose call to
  the typesetting engine throws \<open>e\<close> logs \<open>e\<close>, leaves the token stream as it was,
  sets the cursor just past \<open>right\<close> and returns true.\<close>

theorem inline_render_failure_consumes:
  assumes "delimiters opts = dsa @ d # dsb"
    and "\<forall>d' \<in> set dsa. fails_at st d'"
    and "closes_at st d p"
    and "katex (slice (src st) (pos st + length (left d)) p)
           \<lparr>throwOnError = False, output' = ''mathml'', displayMode = display d\<rparr> = Inl e"
  shows "mathInlineRule opts katex st False =
           (True, st\<lparr>pos := p + length (right d)\<rparr>, [(''KaTeX inline rendering error:'', e)])"
  using assms by (simp add: mathInlineRule_def inline_pairs_match emit_inline_def)

theorem inline_render_failure_consumes_witness:
  "mathInlineRule defaultOptions katex_throws ex_inline False =
     (True, ex_inline\<lparr>pos := 5\<rparr>, [(''KaTeX inline rendering error:'', JsExn ''ParseError'')])
   \<and> tokens (ex_inline\<lparr>pos := 5\<rparr>) = tokens ex_inline"
  using inline_render_failure_consumes [where opts = defaultOptions and dsa = "[display_pair]"
      and d = inline_pair and dsb = "[]" and st = ex_inline and p = 3 and katex = katex_throws
      and e = "JsExn ''ParseError''"]
    ex_inline_closes ex_inline_fails
  by (simp add: defaultOptions_def display_pair_def inline_pair_def katex_throws_def)

text \<open>Claim C8. A pair whose \<open>left\<close> matches at the cursor but whose walk meets a
  newline or the bound before \<open>right\<close> fails alone: the loop goes on with the remaining
  pairs on the same state, hence at the same cursor. So when the pairs before \<open>c\<close> fail
  and \<open>c\<close> closes at \<open>p\<close>, measured from that same cursor, the scan has the outcome of
  \<open>c\<close>: true, the cursor just past its \<open>right\<close>, and when not silent the engine's
  markup as a token or its exception in the log. When every configured pair fails, the
  scan returns false and the state, cursor included, is unchanged.\<close>

theorem inline_pair_failure_falls_through:
  "(startsWith (drop (pos st) (src st)) (left d) \<and> unclosed st d \<longrightarrow>
      inline_pairs katex st silent (d # ds) = inline_pairs katex st silent ds)
   \<and> (delimiters opts = dsa @ c # dsb \<and> (\<forall>d' \<in> set dsa. fails_at st d') \<and> closes_at st c p \<longrightarrow>
      mathInlineRule opts katex st silent =
        (if silent then (True, st\<lparr>pos := p + length (right c)\<rparr>, [])
         else (case katex (slice (src st) (pos st + length (left c)) p)
                      \<lparr>throwOnError = False, output' = ''mathml'', displayMode = display c\<rparr> of
                 Inr renderedContent \<Rightarrow>
                   (True,
                    st\<lparr>tokens := tokens st @ [inline_token renderedContent],
                       pos := p + length (right c)\<rparr>,
                    [])
               | Inl e \<Rightarrow>
                   (True, st\<lparr>pos := p + length (right c)\<rparr>,
                    [(''KaTeX inline rendering error:'', e)]))))
   \<and> ((\<forall>d' \<in> set (delimiters opts). fails_at st d') \<longrightarrow>
      mathInlineRule opts katex st silent = (False, st, []))"
proof (intro conjI impI)
  assume "startsWith (drop (pos st) (src st)) (left d) \<and> unclosed st d"
  then have "fails_at st d" by (simp add: fails_at_def)
  then show "inline_pairs katex st silent (d # ds) = inline_pairs katex st silent ds"
    by (simp add: try_pair_None_iff [symmetric])
next
  assume h: "delimiters opts = dsa @ c # dsb \<and> (\<forall>d' \<in> set dsa. fails_at st d')
      \<and> closes_at st c p"
  then have "mathInlineRule opts katex st silent = emit_inline katex st silent c p"
    by (simp add: mathInlineRule_def inline_pairs_match)
  then show "mathInlineRule opts katex st silent =
        (if silent then (True, st\<lparr>pos := p + length (right c)\<rparr>, [])
         else (case katex (slice (src st) (pos st + length (left c)) p)
                      \<lparr>throwOnError = False, output' = ''mathml'', displayMode = display c\<rparr> of
                 Inr renderedContent \<Rightarrow>
                   (True,
                    st\<lparr>tokens := tokens st @ [inline_token renderedContent],
                       pos := p + length (right c)\<rparr>,
                    [])
               | Inl e \<Rightarrow>
                   (True, st\<lparr>pos := p + length (right c)\<rparr>,
                    [(''KaTeX inline rendering error:'', e)])))"
    by (simp add: emit_inline_def push_def Token_def inline_token_def split: sum.splits)
next
  assume "\<forall>d' \<in> set (delimiters opts). fails_at st d'"
  then show "mathInlineRule opts katex st silent = (False, st, [])"
    using inline_pairs_skip [of "delimiters opts" st katex silent "[]"]
    by (simp add: mathInlineRule_def)
qed

lemma ex_newline_unclosed:
  "startsWith (drop (pos ex_newline) (src ex_newline)) (left inline_pair)
   \<and> unclosed ex_newline inline_pair"
proof
  show "startsWith (drop (pos ex_newline) (src ex_newline)) (left inline_pair)"
    by (simp add: ex_newline_def inline_pair_def)
  show "unclosed ex_newline inline_pair"
    unfolding unclosed_def
  proof (intro ballI impI)
    fix q
    assume q: "q \<in> {pos ex_newline + length (left inline_pair)..<posMax ex_newline}"
      and sw: "startsWith (drop q (src ex_newline)) (right inline_pair)"
    from q have "q = 2 \<or> q = 3 \<or> q = 4 \<or> q = 5"
      by (auto simp: ex_newline_def inline_pair_def)
    with sw have "3 \<le> q"
      by (auto simp: ex_newline_def inline_pair_def)
    moreover have "newline_at (src ex_newline) 3"
      by (simp add: newline_at_def ex_newline_def)
    ultimately show "\<exists>n\<in>{pos ex_newline + length (left inline_pair)..q}.
        newline_at (src ex_newline) n"
      by (intro bexI [of _ 3]) (simp_all add: ex_newline_def inline_pair_def)
  qed
qed

lemma ex_newline_fails: "\<forall>d' \<in> set (delimiters defaultOptions). fails_at ex_newline d'"
  using ex_newline_unclosed
  by (simp add: defaultOptions_def fails_at_def inline_pair_def) (simp add: ex_newline_def)

lemma ex_fallthrough_unclosed:
  "startsWith (drop (pos ex_fallthrough) (src ex_fallthrough)) (left paren_bracket_pair)
   \<and> unclosed ex_fallthrough paren_bracket_pair"
proof
  show "startsWith (drop (pos ex_fallthrough) (src ex_fallthrough)) (left paren_bracket_pair)"
    by (simp add: ex_fallthrough_def paren_bracket_pair_def)
  show "unclosed ex_fallthrough paren_bracket_pair"
    unfolding unclosed_def
  proof (intro ballI impI)
    fix q
    assume q: "q \<in> {pos ex_fallthrough + length (left paren_bracket_pair)..<posMax ex_fallthrough}"
      and sw: "startsWith (drop q (src ex_fallthrough)) (right paren_bracket_pair)"
    from q have "q = 2 \<or> q = 3 \<or> q = 4 \<or> q = 5 \<or> q = 6 \<or> q = 7"
      by (auto simp: ex_fallthrough_def paren_bracket_pair_def)
    with sw have "5 \<le> q"
      by (auto simp: ex_fallthrough_def paren_bracket_pair_def)
    moreover have "newline_at (src ex_fallthrough) 5"
      by (simp add: newline_at_def ex_fallthrough_def)
    ultimately show "\<exists>n\<in>{pos ex_fallthrough + length (left paren_bracket_pair)..q}.
        newline_at (src ex_fallthrough) n"
      by (intro bexI [of _ 5]) (simp_all add: ex_fallthrough_def paren_bracket_pair_def)
  qed
qed

lemma ex_fallthrough_closes: "closes_at ex_fallthrough inline_pair 3"
  by (simp add: closes_at_def ex_fallthrough_def inline_pair_def newline_at_def
      atLeastLessThan_upt atLeastAtMost_upt upt_rec)

lemma ex_fallthrough_content:
  "slice (src ex_fallthrough) (pos ex_fallthrough + length (left inline_pair)) 3 = [0x78]"
  by (simp add: slice_def ex_fallthrough_def inline_pair_def)

theorem inline_pair_failure_falls_through_witness:
  "inline_pairs katex_echo ex_fallthrough False [paren_bracket_pair, inline_pair] =
     inline_pairs katex_echo ex_fallthrough False [inline_pair]
   \<and> mathInlineRule opts_fallthrough katex_echo ex_fallthrough False =
       (True, ex_fallthrough\<lparr>tokens := [inline_token [0x78]], pos := 5\<rparr>, [])
   \<and> mathInlineRule opts_fallthrough katex_echo ex_fallthrough True =
       (True, ex_fallthrough\<lparr>pos := 5\<rparr>, [])
   \<and> mathInlineRule defaultOptions katex_echo ex_newline False = (False, ex_newline, [])"
proof (intro conjI)
  from ex_fallthrough_unclosed
  show "inline_pairs katex_echo ex_fallthrough False [paren_bracket_pair, inline_pair] =
     inline_pairs katex_echo ex_fallthrough False [inline_pair]"
    using inline_pair_failure_falls_through [where st = ex_fallthrough
        and d = paren_bracket_pair and katex = katex_echo and silent = False
        and ds = "[inline_pair]"]
    by blast
  have cfg: "delimiters opts_fallthrough = [paren_bracket_pair] @ inline_pair # []"
    by (simp add: opts_fallthrough_def)
  have skipped: "\<forall>d' \<in> set [paren_bracket_pair]. fails_at ex_fallthrough d'"
    using ex_fallthrough_unclosed by (simp add: fails_at_def)
  have toks: "tokens ex_fallthrough = []" and len: "length (right inline_pair) = 2"
    by (simp_all add: ex_fallthrough_def inline_pair_def)
  have "mathInlineRule opts_fallthrough katex_echo ex_fallthrough False =
      (case katex_echo (slice (src ex_fallthrough) (pos ex_fallthrough + length (left inline_pair)) 3)
              \<lparr>throwOnError = False, output' = ''mathml'', displayMode = display inline_pair\<rparr> of
         Inr renderedContent \<Rightarrow>
           (True,
            ex_fallthrough\<lparr>tokens := tokens ex_fallthrough @ [inline_token renderedContent],
               pos := 3 + length (right inline_pair)\<rparr>,
            [])
       | Inl e \<Rightarrow>
           (True, ex_fallthrough\<lparr>pos := 3 + length (right inline_pair)\<rparr>,
            [(''KaTeX inline rendering error:'', e)]))"
    using inline_pair_failure_falls_through [where opts = opts_fallthrough
        and dsa = "[paren_bracket_pair]" and c = inline_pair and dsb = "[]"
        and st = ex_fallthrough and p = 3 and katex = katex_echo and silent = False]
      cfg skipped ex_fallthrough_closes
    by simp
  then show "mathInlineRule opts_fallthrough katex_echo ex_fallthrough False =
       (True, ex_fallthrough\<lparr>tokens := [inline_token [0x78]], pos := 5\<rparr>, [])"
    by (simp add: ex_fallthrough_content katex_echo_def toks len)
  have "mathInlineRule opts_fallthrough katex_echo ex_fallthrough True =
      (True, ex_fallthrough\<lparr>pos := 3 + length (right inline_pair)\<rparr>, [])"
    using inline_pair_failure_falls_through [where opts = opts_fallthrough
        and dsa = "[paren_bracket_pair]" and c = inline_pair and dsb = "[]"
        and st = ex_fallthrough and p = 3 and katex = katex_echo and silent = True]
      cfg skipped ex_fallthrough_closes
    by simp
  then show "mathInlineRule opts_fallthrough katex_echo ex_fallthrough True =
       (True, ex_fallthrough\<lparr>pos := 5\<rparr>, [])"
    by (simp add: len)
  from ex_newline_fails
  show "mathInlineRule defaultOptions katex_echo ex_newline False = (False, ex_newline, [])"
    using inline_pair_failure_falls_through [where st = ex_newline and opts = defaultOptions
        and katex = katex_echo and silent = False]
    by blast
qed

lemma ex_overrun_try:
  "try_pair ex_overrun display_pair = None" "try_pair ex_overrun inline_pair = Some 3"
  by (simp_all add: try_pair_def ex_overrun_def display_pair_def inline_pair_def walk.simps newline_at_def)

text \<open>Claim C10. On \<open>\(x\)\<close> with \<open>posMax = 4\<close> the two-unit \<open>right\<close> begins at
  position \<open>posMax - 1\<close> and ends beyond the bound; the scan still matches, whatever the
  engine does and silent or not, and leaves the cursor at 5, past \<open>posMax\<close>.\<close>

theorem inline_close_may_overrun_posMax:
  "startsWith (drop (posMax ex_overrun - 1) (src ex_overrun)) (right inline_pair)
   \<and> length (right inline_pair) = 2
   \<and> fst (mathInlineRule defaultOptions katex ex_overrun silent)
   \<and> pos (fst (snd (mathInlineRule defaultOptions katex ex_overrun silent))) = 5
   \<and> posMax (fst (snd (mathInlineRule defaultOptions katex ex_overrun silent))) = 4"
proof -
  have d: "delimiters defaultOptions = [display_pair, inline_pair]"
    by (simp add: defaultOptions_def display_pair_def inline_pair_def)
  have r: "mathInlineRule defaultOptions katex ex_overrun silent =
      emit_inline katex ex_overrun silent inline_pair 3"
    by (simp add: mathInlineRule_def d ex_overrun_try)
  have "startsWith (drop (posMax ex_overrun - 1) (src ex_overrun)) (right inline_pair)"
    by (simp add: ex_overrun_def inline_pair_def)
  moreover have "length (right inline_pair) = 2" by (simp add: inline_pair_def)
  moreover have "fst (emit_inline katex ex_overrun silent inline_pair 3)"
    by (simp add: emit_inline_def Let_def split: prod.splits)
  moreover have "pos (fst (snd (emit_inline katex ex_overrun silent inline_pair 3))) = 5"
    by (auto simp: emit_inline_def Let_def inline_pair_def push_def split: prod.splits sum.splits)
  moreover have "posMax (fst (snd (emit_inline katex ex_overrun silent inline_pair 3))) = 4"
    by (auto simp: emit_inline_def Let_def ex_overrun_def push_def split: prod.splits sum.splits)
  ultimately show ?thesis by (simp only: r) 
qed

section \<open>The block rule: where the closing delimiter is\<close>

lemma scan_lines_found:
  "n \<le> k \<Longrightarrow> k < endLine \<Longrightarrow>
   \<forall>j \<in> {n..<k}. indexOf (line_text st j) r = None \<Longrightarrow>
   indexOf (line_text st k) r = Some rp \<Longrightarrow>
   scan_lines st r endLine c n =
     (if trim (drop (rp + length r) (line_text st k)) \<noteq> [] then Reject
      else Scanned True
             (c @ concat (List.map (\<lambda>j. line_text st j @ [0x0A]) [n..<k]) @ take rp (line_text st k))
             (k + 1))"
proof (induction st r endLine c n rule: scan_lines.induct)
  case (1 st rgt endLine cont nextLine)
  from 1(2,3) have lt: "nextLine < endLine" by simp
  show ?case
  proof (cases "nextLine = k")
    case True
    with lt 1(5) show ?thesis
      by (subst scan_lines.simps) simp
  next
    case False
    with 1(2) have nk: "nextLine < k" by simp
    with 1(4) have none: "indexOf (line_text st nextLine) rgt = None" by simp
    have rest: "\<forall>j \<in> {nextLine + 1..<k}. indexOf (line_text st j) rgt = None"
      using 1(4) by simp
    have "scan_lines st rgt endLine cont nextLine =
        scan_lines st rgt endLine (cont @ line_text st nextLine @ [0x0A]) (nextLine + 1)"
      using lt none by (subst scan_lines.simps) simp
    also have "\<dots> =
      (if trim (drop (rp + length rgt) (line_text st k)) \<noteq> [] then Reject
       else Scanned True
             ((cont @ line_text st nextLine @ [0x0A])
                @ concat (List.map (\<lambda>j. line_text st j @ [0x0A]) [nextLine + 1..<k])
                @ take rp (line_text st k))
             (k + 1))"
      using 1(1) [OF lt refl none _ 1(3) rest 1(5)] nk by simp
    finally show ?thesis using nk by (simp add: upt_conv_Cons)
  qed
qed

lemma scan_lines_unfound:
  "\<forall>j \<in> {n..<endLine}. indexOf (line_text st j) r = None \<Longrightarrow>
   \<exists>c' n'. scan_lines st r endLine c n = Scanned False c' n'"
proof (induction st r endLine c n rule: scan_lines.induct)
  case (1 st rgt endLine cont nextLine)
  show ?case
  proof (cases "nextLine < endLine")
    case True
    with 1(2) have none: "indexOf (line_text st nextLine) rgt = None" by simp
    have rest: "\<forall>j \<in> {nextLine + 1..<endLine}. indexOf (line_text st j) rgt = None"
      using 1(2) by simp
    have "scan_lines st rgt endLine cont nextLine =
        scan_lines st rgt endLine (cont @ line_text st nextLine @ [0x0A]) (nextLine + 1)"
      using True none by (subst scan_lines.simps) simp
    with 1(1) [OF True refl none rest] show ?thesis by simp
  next
    case False
    then show ?thesis by (subst scan_lines.simps) simp
  qed
qed

lemma scan_close_found:
  assumes "closes_on st d startLine endLine k rp"
  shows "scan_close st d (line_text st startLine) startLine endLine =
     (if trailing st d startLine k rp \<noteq> [] then Reject
      else Scanned True (captured st d startLine k rp) (k + 1))"
proof (cases "k = startLine")
  case True
  with assms show ?thesis
    by (simp add: closes_on_def scan_close_def trailing_def captured_def searched_def)
next
  case False
  with assms have lt: "startLine < k" and ke: "k < endLine"
    and before: "\<forall>j \<in> {startLine..<k}. indexOf (searched st d startLine j) (right d) = None"
    and last: "indexOf (line_text st k) (right d) = Some rp"
    by (auto simp: closes_on_def searched_def)
  from before lt have "indexOf (searched st d startLine startLine) (right d) = None"
    by simp
  then have first: "indexOf (drop (length (left d)) (line_text st startLine)) (right d) = None"
    by (simp add: searched_def)
  have mid: "\<forall>j \<in> {startLine + 1..<k}. indexOf (line_text st j) (right d) = None"
  proof
    fix j assume j: "j \<in> {startLine + 1..<k}"
    with before have "indexOf (searched st d startLine j) (right d) = None" by simp
    with j show "indexOf (line_text st j) (right d) = None" by (simp add: searched_def)
  qed
  have cap: "captured st d startLine k rp =
      (drop (length (left d)) (line_text st startLine) @ [0x0A])
        @ concat (List.map (\<lambda>j. line_text st j @ [0x0A]) [startLine + 1..<k])
        @ take rp (line_text st k)"
  proof -
    have "List.map (\<lambda>j. searched st d startLine j @ [0x0A]) [startLine + 1..<k] =
        List.map (\<lambda>j. line_text st j @ [0x0A]) [startLine + 1..<k]"
      by (rule map_cong) (simp_all add: searched_def)
    moreover have "[startLine..<k] = startLine # [startLine + 1..<k]"
      using lt by (simp add: upt_conv_Cons)
    moreover have "searched st d startLine startLine = drop (length (left d)) (line_text st startLine)"
      by (simp add: searched_def)
    moreover have "searched st d startLine k = line_text st k"
      using False by (simp add: searched_def)
    ultimately show ?thesis
      by (simp only: captured_def list.map concat.simps append_assoc)
  qed
  have "scan_close st d (line_text st startLine) startLine endLine =
      scan_lines st (right d) endLine
        (drop (length (left d)) (line_text st startLine) @ [0x0A]) (startLine + 1)"
    using first by (simp add: scan_close_def)
  also have "\<dots> = (if trim (drop (rp + length (right d)) (line_text st k)) \<noteq> [] then Reject
      else Scanned True (captured st d startLine k rp) (k + 1))"
    using scan_lines_found [of "startLine + 1" k endLine st "right d" rp] lt ke mid last
    by (simp add: cap)
  finally show ?thesis using False by (simp add: trailing_def searched_def)
qed

lemma scan_close_unfound:
  assumes "indexOf (drop (length (left d)) (line_text st startLine)) (right d) = None"
    and "\<forall>j \<in> {startLine + 1..<endLine}. indexOf (line_text st j) (right d) = None"
  shows "\<exists>c n. scan_close st d (line_text st startLine) startLine endLine = Scanned False c n"
  using assms scan_lines_unfound [of "startLine + 1" endLine st "right d"]
  by (simp add: scan_close_def)

lemma find_first:
  "\<forall>x \<in> set xs. \<not> P x \<Longrightarrow> P y \<Longrightarrow> find P (xs @ y # ys) = Some y"
  by (induction xs) simp_all

lemma find_none: "\<forall>x \<in> set xs. \<not> P x \<Longrightarrow> find P xs = None"
  by (induction xs) simp_all

text \<open>A block scan that returns false has left the state as it was.\<close>

lemma mathBlockRule_false_frame:
  "\<not> fst (mathBlockRule opts katex st startLine endLine silent) \<Longrightarrow>
     fst (snd (mathBlockRule opts katex st startLine endLine silent)) = st"
  by (auto simp: mathBlockRule_def Let_def split: option.splits scan.splits sum.splits if_splits)

lemma mathBlockRule_selected:
  assumes "filter display (delimiters opts) = dsa @ d # dsb"
    and "\<forall>d' \<in> set dsa. \<not> startsWith (line_text st startLine) (left d')"
    and "startsWith (line_text st startLine) (left d)"
  shows "mathBlockRule opts katex st startLine endLine silent =
     (case scan_close st d (line_text st startLine) startLine endLine of
        Reject \<Rightarrow> (False, st, [])
      | Scanned found cont nextLine \<Rightarrow>
          if \<not> found then (False, st, [])
          else if silent then (True, st, [])
          else (case katex (trim cont) display_katex_options of
                  Inl e \<Rightarrow> (False, st, [(''KaTeX block rendering error:'', e)])
                | Inr renderedContent \<Rightarrow>
                    (True,
                     st\<lparr>tokens := tokens st @ [block_token renderedContent startLine nextLine],
                        line := nextLine\<rparr>,
                     [])))"
proof -
  have "find (\<lambda>delim. startsWith (line_text st startLine) (left delim))
      (filter display (delimiters opts)) = Some d"
    unfolding assms(1) using assms(2,3) by (rule find_first)
  then show ?thesis
    by (simp add: mathBlockRule_def push_def Token_def block_token_def display_katex_options_def
        split: scan.splits sum.splits)
qed

lemma mathBlockRule_closed:
  assumes "filter display (delimiters opts) = dsa @ d # dsb"
    and "\<forall>d' \<in> set dsa. \<not> startsWith (line_text st startLine) (left d')"
    and "startsWith (line_text st startLine) (left d)"
    and "closes_on st d startLine endLine k rp"
    and "trailing st d startLine k rp = []"
  shows "mathBlockRule opts katex st startLine endLine silent =
     (if silent then (True, st, [])
      else (case katex (trim (captured st d startLine k rp)) display_katex_options of
              Inl e \<Rightarrow> (False, st, [(''KaTeX block rendering error:'', e)])
            | Inr renderedContent \<Rightarrow>
                (True,
                 st\<lparr>tokens := tokens st @ [block_token renderedContent startLine (k + 1)],
                    line := k + 1\<rparr>,
                 [])))"
  using assms(5)
  by (simp add: mathBlockRule_selected [OF assms(1-3)] scan_close_found [OF assms(4)]
      split: sum.splits)

text \<open>The concrete documents, line by line.\<close>

lemma ex_block_lines:
  "line_text ex_block 0 = [0x5C, 0x5B]"
  "line_text ex_block (Suc 0) = [0x78, 0x2B, 0x79, 0x20]"
  "line_text ex_block 2 = [0x5C, 0x5D]"
  by (simp_all add: line_text_def ex_block_def at_index_def slice_def)

lemma ex_block_tokens: "tokens ex_block = []"
  by (simp add: ex_block_def)

lemma ex_block_closes: "closes_on ex_block display_pair 0 3 2 0"
  by (simp add: closes_on_def searched_def ex_block_lines display_pair_def
      atLeastLessThan_upt upt_rec)

lemma ex_block_trailing: "trailing ex_block display_pair 0 2 0 = []"
  by (simp add: trailing_def searched_def ex_block_lines display_pair_def trim_def)

lemma ex_block_captured: "trim (captured ex_block display_pair 0 2 0) = [0x78, 0x2B, 0x79]"
  by (simp add: captured_def searched_def ex_block_lines display_pair_def trim_def
      isWhiteSpace_def upt_rec)

lemma default_display: "filter display (delimiters defaultOptions) = [] @ display_pair # []"
  by (simp add: defaultOptions_def display_pair_def)

lemma ex_block_opens: "startsWith (line_text ex_block 0) (left display_pair)"
  by (simp add: ex_block_lines display_pair_def)

lemma ex_trailing_lines: "line_text ex_trailing 0 = [0x5C, 0x5B, 0x78, 0x5C, 0x5D, 0x20, 0x74]"
  by (simp add: line_text_def ex_trailing_def at_index_def slice_def)

lemma ex_trailing_opens: "startsWith (line_text ex_trailing 0) (left display_pair)"
  by (simp add: ex_trailing_lines display_pair_def)

lemma ex_trailing_closes: "closes_on ex_trailing display_pair 0 1 0 1"
  by (simp add: closes_on_def searched_def ex_trailing_lines display_pair_def)

lemma ex_trailing_trailing: "trailing ex_trailing display_pair 0 0 1 \<noteq> []"
  by (simp add: trailing_def searched_def ex_trailing_lines display_pair_def trim_def
      isWhiteSpace_def)

lemma ex_trailing_later_lines:
  "line_text ex_trailing_later 0 = [0x5C, 0x5B]"
  "line_text ex_trailing_later (Suc 0) = [0x78, 0x5C, 0x5D, 0x20, 0x74]"
  by (simp_all add: line_text_def ex_trailing_later_def at_index_def slice_def)

lemma ex_trailing_later_opens: "startsWith (line_text ex_trailing_later 0) (left display_pair)"
  by (simp add: ex_trailing_later_lines display_pair_def)

lemma ex_trailing_later_closes: "closes_on ex_trailing_later display_pair 0 2 1 1"
  by (simp add: closes_on_def searched_def ex_trailing_later_lines display_pair_def)

lemma ex_trailing_later_trailing: "trailing ex_trailing_later display_pair 0 1 1 \<noteq> []"
  by (simp add: trailing_def searched_def ex_trailing_later_lines display_pair_def trim_def
      isWhiteSpace_def)

lemma ex_unclosed_lines:
  "line_text ex_unclosed 0 = [0x5C, 0x5B, 0x78]"
  "line_text ex_unclosed (Suc 0) = [0x79]"
  by (simp_all add: line_text_def ex_unclosed_def at_index_def slice_def)

lemma ex_unclosed_opens: "startsWith (line_text ex_unclosed 0) (left display_pair)"
  by (simp add: ex_unclosed_lines display_pair_def)

lemma ex_unclosed_first:
  "indexOf (drop (length (left display_pair)) (line_text ex_unclosed 0)) (right display_pair) = None"
  by (simp add: ex_unclosed_lines display_pair_def)

lemma ex_unclosed_rest:
  "\<forall>j \<in> {0 + 1..<2}. indexOf (line_text ex_unclosed j) (right display_pair) = None"
  by (simp add: ex_unclosed_lines display_pair_def atLeastLessThan_upt upt_rec)

lemma ex_plain_lines: "line_text ex_plain 0 = [0x78]"
  by (simp add: line_text_def ex_plain_def at_index_def slice_def)

lemma ex_plain_unopened:
  "\<forall>d' \<in> set (delimiters defaultOptions).
     display d' \<longrightarrow> \<not> startsWith (line_text ex_plain 0) (left d')"
  by (simp add: defaultOptions_def ex_plain_lines)

text \<open>Claim C3. A non-silent block scan with a valid close (the selected pair closes on
  line \<open>k\<close> with nothing trailing) whose call to the typesetting engine throws \<open>e\<close>
  returns false with the state unchanged: no token appended, \<open>line\<close> not advanced. The
  exception is logged.\<close>

theorem block_render_failure_is_atomic:
  assumes "filter display (delimiters opts) = dsa @ d # dsb"
    and "\<forall>d' \<in> set dsa. \<not> startsWith (line_text st startLine) (left d')"
    and "startsWith (line_text st startLine) (left d)"
    and "closes_on st d startLine endLine k rp"
    and "trailing st d startLine k rp = []"
    and "katex (trim (captured st d startLine k rp)) display_katex_options = Inl e"
  shows "mathBlockRule opts katex st startLine endLine False =
           (False, st, [(''KaTeX block rendering error:'', e)])"
  using assms(6) by (simp add: mathBlockRule_closed [OF assms(1-5)])

theorem block_render_failure_is_atomic_witness:
  "mathBlockRule defaultOptions katex_throws ex_block 0 3 False =
     (False, ex_block, [(''KaTeX block rendering error:'', JsExn ''ParseError'')])"
  using block_render_failure_is_atomic [where opts = defaultOptions and dsa = "[]"
      and d = display_pair and dsb = "[]" and st = ex_block and startLine = 0 and endLine = 3
      and k = 2 and rp = 0 and katex = katex_throws and e = "JsExn ''ParseError''"]
    default_display ex_block_opens ex_block_closes ex_block_trailing
  by (simp add: katex_throws_def)

text \<open>Claim C4. When the closing delimiter is found, on the opening line or on a later
  one, and what follows it on that line is not empty after trimming, the block scan returns
  false, appends no token and leaves the state unchanged.\<close>

theorem block_trailing_content_rejected:
  assumes "filter display (delimiters opts) = dsa @ d # dsb"
    and "\<forall>d' \<in> set dsa. \<not> startsWith (line_text st startLine) (left d')"
    and "startsWith (line_text st startLine) (left d)"
    and "closes_on st d startLine endLine k rp"
    and "trailing st d startLine k rp \<noteq> []"
  shows "mathBlockRule opts katex st startLine endLine silent = (False, st, [])"
  using assms(5)
  by (simp add: mathBlockRule_selected [OF assms(1-3)] scan_close_found [OF assms(4)])

theorem block_trailing_content_rejected_witness:
  "mathBlockRule defaultOptions katex_echo ex_trailing 0 1 False = (False, ex_trailing, [])
   \<and> mathBlockRule defaultOptions katex_echo ex_trailing_later 0 2 False =
       (False, ex_trailing_later, [])"
  using block_trailing_content_rejected [where opts = defaultOptions and dsa = "[]"
      and d = display_pair and dsb = "[]" and st = ex_trailing and startLine = 0
      and endLine = 1 and k = 0 and rp = 1 and katex = katex_echo and silent = False]
    block_trailing_content_rejected [where opts = defaultOptions and dsa = "[]"
      and d = display_pair and dsb = "[]" and st = ex_trailing_later and startLine = 0
      and endLine = 2 and k = 1 and rp = 1 and katex = katex_echo and silent = False]
    default_display ex_trailing_opens ex_trailing_closes ex_trailing_trailing
    ex_trailing_later_opens ex_trailing_later_closes ex_trailing_later_trailing
  by simp

text \<open>Claim C5. When the closing delimiter is on a line \<open>k\<close> after the opening one,
  the raw content is the opening line after \<open>left\<close>, a newline, every line strictly
  between followed by a newline, and line \<open>k\<close> up to \<open>right\<close>; the engine receives it
  trimmed, and the outcome of the scan is the outcome of that one call.\<close>

theorem block_multiline_content:
  assumes "filter display (delimiters opts) = dsa @ d # dsb"
    and "\<forall>d' \<in> set dsa. \<not> startsWith (line_text st startLine) (left d')"
    and "startsWith (line_text st startLine) (left d)"
    and "closes_on st d startLine endLine k rp"
    and "startLine < k"
    and "trailing st d startLine k rp = []"
  shows "mathBlockRule opts katex st startLine endLine False =
     (case katex
             (trim (drop (length (left d)) (line_text st startLine) @ [0x0A]
                      @ concat (List.map (\<lambda>j. line_text st j @ [0x0A]) [startLine + 1..<k])
                      @ take rp (line_text st k)))
             display_katex_options of
        Inl e \<Rightarrow> (False, st, [(''KaTeX block rendering error:'', e)])
      | Inr renderedContent \<Rightarrow>
          (True,
           st\<lparr>tokens := tokens st @ [block_token renderedContent startLine (k + 1)],
              line := k + 1\<rparr>,
           []))"
proof -
  have "List.map (\<lambda>j. searched st d startLine j @ [0x0A]) [startLine + 1..<k] =
      List.map (\<lambda>j. line_text st j @ [0x0A]) [startLine + 1..<k]"
    by (rule map_cong) (simp_all add: searched_def)
  moreover have "[startLine..<k] = startLine # [startLine + 1..<k]"
    using assms(5) by (simp add: upt_conv_Cons)
  moreover have "searched st d startLine startLine = drop (length (left d)) (line_text st startLine)"
    by (simp add: searched_def)
  moreover have "searched st d startLine k = line_text st k"
    using assms(5) by (simp add: searched_def)
  ultimately have "captured st d startLine k rp =
      drop (length (left d)) (line_text st startLine) @ [0x0A]
        @ concat (List.map (\<lambda>j. line_text st j @ [0x0A]) [startLine + 1..<k])
        @ take rp (line_text st k)"
    by (simp only: captured_def list.map concat.simps append_assoc)
  then show ?thesis
    using mathBlockRule_closed [OF assms(1-4,6), of katex False] by simp
qed

theorem block_multiline_content_witness:
  "mathBlockRule defaultOptions katex_echo ex_block 0 3 False =
     (True, ex_block\<lparr>tokens := [block_token [0x78, 0x2B, 0x79] 0 3], line := 3\<rparr>, [])"
  using block_multiline_content [where opts = defaultOptions and dsa = "[]"
      and d = display_pair and dsb = "[]" and st = ex_block and startLine = 0 and endLine = 3
      and k = 2 and rp = 0 and katex = katex_echo]
    default_display ex_block_opens ex_block_closes ex_block_trailing
  by (simp add: katex_echo_def ex_block_lines ex_block_tokens display_pair_def trim_def
      isWhiteSpace_def upt_rec)

text \<open>Claim C6. When the opening delimiter matches and neither the rest of the opening
  line nor any line before \<open>endLine\<close> contains \<open>right\<close>, the block scan returns false,
  appends no token and leaves the state unchanged; nothing of the accumulated buffer
  shows.\<close>

theorem block_unclosed_fails:
  assumes "filter display (delimiters opts) = dsa @ d # dsb"
    and "\<forall>d' \<in> set dsa. \<not> startsWith (line_text st startLine) (left d')"
    and "startsWith (line_text st startLine) (left d)"
    and "indexOf (drop (length (left d)) (line_text st startLine)) (right d) = None"
    and "\<forall>j \<in> {startLine + 1..<endLine}. indexOf (line_text st j) (right d) = None"
  shows "mathBlockRule opts katex st startLine endLine silent = (False, st, [])"
proof -
  from scan_close_unfound [OF assms(4,5)] obtain c n
    where "scan_close st d (line_text st startLine) startLine endLine = Scanned False c n"
    by blast
  then show ?thesis by (simp add: mathBlockRule_selected [OF assms(1-3)])
qed

theorem block_unclosed_fails_witness:
  "mathBlockRule defaultOptions katex_echo ex_unclosed 0 2 False = (False, ex_unclosed, [])"
  using block_unclosed_fails [where opts = defaultOptions and dsa = "[]"
      and d = display_pair and dsb = "[]" and st = ex_unclosed and startLine = 0
      and endLine = 2 and katex = katex_echo and silent = False]
    default_display ex_unclosed_opens ex_unclosed_first ex_unclosed_rest
  by simp

text \<open>Claim C7. The block scan sees only the pairs with the display flag. The first of
  them, in declaration order, whose \<open>left\<close> is a prefix of the opening line decides the
  outcome alone, whatever pairs follow it: the scan behaves as if it were the only
  configured pair; when it closes cleanly the scan succeeds with the content up to its
  \<open>right\<close>; when its close is followed by text, or it never closes, the scan returns
  false with the state unchanged and no later pair is tried. When no display pair's
  \<open>left\<close> is a prefix of the line the scan returns false with the state unchanged.\<close>

theorem block_pair_selection:
  "mathBlockRule opts katex st startLine endLine silent =
     mathBlockRule (opts\<lparr>delimiters := filter display (delimiters opts)\<rparr>)
       katex st startLine endLine silent
   \<and> (filter display (delimiters opts) = dsa @ d # dsb
        \<and> (\<forall>d' \<in> set dsa. \<not> startsWith (line_text st startLine) (left d'))
        \<and> startsWith (line_text st startLine) (left d)
      \<longrightarrow>
        mathBlockRule opts katex st startLine endLine silent =
          mathBlockRule \<lparr>delimiters = [d]\<rparr> katex st startLine endLine silent
        \<and> (closes_on st d startLine endLine k rp \<and> trailing st d startLine k rp = [] \<longrightarrow>
             mathBlockRule opts katex st startLine endLine silent =
               (if silent then (True, st, [])
                else (case katex (trim (captured st d startLine k rp)) display_katex_options of
                        Inl e \<Rightarrow> (False, st, [(''KaTeX block rendering error:'', e)])
                      | Inr renderedContent \<Rightarrow>
                          (True,
                           st\<lparr>tokens :=
                                tokens st @ [block_token renderedContent startLine (k + 1)],
                              line := k + 1\<rparr>,
                           []))))
        \<and> (closes_on st d startLine endLine k rp \<and> trailing st d startLine k rp \<noteq> [] \<longrightarrow>
             mathBlockRule opts katex st startLine endLine silent = (False, st, []))
        \<and> (indexOf (drop (length (left d)) (line_text st startLine)) (right d) = None
             \<and> (\<forall>j \<in> {startLine + 1..<endLine}. indexOf (line_text st j) (right d) = None) \<longrightarrow>
             mathBlockRule opts katex st startLine endLine silent = (False, st, [])))
   \<and> ((\<forall>d' \<in> set (delimiters opts).
          display d' \<longrightarrow> \<not> startsWith (line_text st startLine) (left d'))
      \<longrightarrow> mathBlockRule opts katex st startLine endLine silent = (False, st, []))"
proof (intro conjI impI)
  show "mathBlockRule opts katex st startLine endLine silent =
     mathBlockRule (opts\<lparr>delimiters := filter display (delimiters opts)\<rparr>)
       katex st startLine endLine silent"
    by (simp add: mathBlockRule_def)
next
  assume h: "filter display (delimiters opts) = dsa @ d # dsb
        \<and> (\<forall>d' \<in> set dsa. \<not> startsWith (line_text st startLine) (left d'))
        \<and> startsWith (line_text st startLine) (left d)"
  then have "d \<in> set (filter display (delimiters opts))" by simp
  then have "display d" by simp
  then have single: "filter display (delimiters \<lparr>delimiters = [d]\<rparr>) = [] @ d # []" by simp
  from h have sel: "filter display (delimiters opts) = dsa @ d # dsb"
    "\<forall>d' \<in> set dsa. \<not> startsWith (line_text st startLine) (left d')"
    "startsWith (line_text st startLine) (left d)" by simp_all
  show "mathBlockRule opts katex st startLine endLine silent =
            mathBlockRule \<lparr>delimiters = [d]\<rparr> katex st startLine endLine silent"
    by (simp only: mathBlockRule_selected [OF sel]
        mathBlockRule_selected [OF single _ sel(3), simplified])
next
  assume h: "filter display (delimiters opts) = dsa @ d # dsb
        \<and> (\<forall>d' \<in> set dsa. \<not> startsWith (line_text st startLine) (left d'))
        \<and> startsWith (line_text st startLine) (left d)"
    and c: "closes_on st d startLine endLine k rp \<and> trailing st d startLine k rp = []"
  from h have sel: "filter display (delimiters opts) = dsa @ d # dsb"
    "\<forall>d' \<in> set dsa. \<not> startsWith (line_text st startLine) (left d')"
    "startsWith (line_text st startLine) (left d)" by simp_all
  from c have cl: "closes_on st d startLine endLine k rp"
    and tr: "trailing st d startLine k rp = []" by simp_all
  show "mathBlockRule opts katex st startLine endLine silent =
               (if silent then (True, st, [])
                else (case katex (trim (captured st d startLine k rp)) display_katex_options of
                        Inl e \<Rightarrow> (False, st, [(''KaTeX block rendering error:'', e)])
                      | Inr renderedContent \<Rightarrow>
                          (True,
                           st\<lparr>tokens :=
                                tokens st @ [block_token renderedContent startLine (k + 1)],
                              line := k + 1\<rparr>,
                           [])))"
    by (rule mathBlockRule_closed [OF sel cl tr])
next
  assume h: "filter display (delimiters opts) = dsa @ d # dsb
        \<and> (\<forall>d' \<in> set dsa. \<not> startsWith (line_text st startLine) (left d'))
        \<and> startsWith (line_text st startLine) (left d)"
    and c: "closes_on st d startLine endLine k rp \<and> trailing st d startLine k rp \<noteq> []"
  from h have sel: "filter display (delimiters opts) = dsa @ d # dsb"
    "\<forall>d' \<in> set dsa. \<not> startsWith (line_text st startLine) (left d')"
    "startsWith (line_text st startLine) (left d)" by simp_all
  from c have cl: "closes_on st d startLine endLine k rp"
    and tr: "trailing st d startLine k rp \<noteq> []" by simp_all
  from tr show "mathBlockRule opts katex st startLine endLine silent = (False, st, [])"
    by (simp add: mathBlockRule_selected [OF sel] scan_close_found [OF cl])
next
  assume h: "filter display (delimiters opts) = dsa @ d # dsb
        \<and> (\<forall>d' \<in> set dsa. \<not> startsWith (line_text st startLine) (left d'))
        \<and> startsWith (line_text st startLine) (left d)"
    and u: "indexOf (drop (length (left d)) (line_text st startLine)) (right d) = None
             \<and> (\<forall>j \<in> {startLine + 1..<endLine}. indexOf (line_text st j) (right d) = None)"
  from h have sel: "filter display (delimiters opts) = dsa @ d # dsb"
    "\<forall>d' \<in> set dsa. \<not> startsWith (line_text st startLine) (left d')"
    "startsWith (line_text st startLine) (left d)" by simp_all
  from u have first: "indexOf (drop (length (left d)) (line_text st startLine)) (right d) = None"
    and rest: "\<forall>j \<in> {startLine + 1..<endLine}. indexOf (line_text st j) (right d) = None"
    by simp_all
  from scan_close_unfound [OF first rest] obtain cont n
    where "scan_close st d (line_text st startLine) startLine endLine = Scanned False cont n"
    by blast
  then show "mathBlockRule opts katex st startLine endLine silent = (False, st, [])"
    by (simp add: mathBlockRule_selected [OF sel])
next
  assume "\<forall>d' \<in> set (delimiters opts).
          display d' \<longrightarrow> \<not> startsWith (line_text st startLine) (left d')"
  then have "\<forall>d' \<in> set (filter display (delimiters opts)).
      \<not> startsWith (line_text st startLine) (left d')" by simp
  then have "find (\<lambda>delim. startsWith (line_text st startLine) (left delim))
      (filter display (delimiters opts)) = None" by (rule find_none)
  then show "mathBlockRule opts katex st startLine endLine silent = (False, st, [])"
    by (simp add: mathBlockRule_def)
qed

lemma ex_order_lines: "line_text ex_order 0 = [0x5C, 0x5B, 0x61, 0x5C, 0x29, 0x62, 0x5C, 0x5D]"
  by (simp add: line_text_def ex_order_def at_index_def slice_def)

lemma ex_order_tokens: "tokens ex_order = []"
  by (simp add: ex_order_def)

lemma opts_order_display:
  "filter display (delimiters opts_order) = [dollar_display] @ display_pair # [bracket_paren_display]"
  by (simp add: opts_order_def bracket_paren_inline_def dollar_display_def display_pair_def
      bracket_paren_display_def)

lemma opts_trailing_first_display:
  "filter display (delimiters opts_trailing_first) = [] @ bracket_paren_display # [display_pair]"
  by (simp add: opts_trailing_first_def display_pair_def bracket_paren_display_def)

lemma opts_unclosed_first_display:
  "filter display (delimiters opts_unclosed_first) = [] @ bracket_dollar_display # [display_pair]"
  by (simp add: opts_unclosed_first_def display_pair_def bracket_dollar_display_def)

lemma ex_order_skips: "\<forall>d' \<in> set [dollar_display]. \<not> startsWith (line_text ex_order 0) (left d')"
  by (simp add: ex_order_lines dollar_display_def)

lemma ex_order_opens:
  "startsWith (line_text ex_order 0) (left display_pair)"
  "startsWith (line_text ex_order 0) (left bracket_paren_display)"
  "startsWith (line_text ex_order 0) (left bracket_dollar_display)"
  "startsWith (line_text ex_order 0) (left bracket_paren_inline)"
  "startsWith (line_text ex_order 0) (left bracket_inline)"
  by (simp_all add: ex_order_lines display_pair_def bracket_paren_display_def
      bracket_dollar_display_def bracket_paren_inline_def bracket_inline_def)

lemma ex_order_closes:
  "closes_on ex_order display_pair 0 1 0 4 \<and> trailing ex_order display_pair 0 0 4 = []"
  by (simp add: closes_on_def trailing_def searched_def ex_order_lines display_pair_def trim_def)

lemma ex_order_captured: "trim (captured ex_order display_pair 0 0 4) = [0x61, 0x5C, 0x29, 0x62]"
  by (simp add: captured_def searched_def ex_order_lines display_pair_def trim_def
      isWhiteSpace_def)

lemma ex_order_closes_early:
  "closes_on ex_order bracket_paren_display 0 1 0 1
   \<and> trailing ex_order bracket_paren_display 0 0 1 \<noteq> []"
  by (simp add: closes_on_def trailing_def searched_def ex_order_lines
      bracket_paren_display_def trim_def isWhiteSpace_def)

lemma ex_order_never_closes:
  "indexOf (drop (length (left bracket_dollar_display)) (line_text ex_order 0))
      (right bracket_dollar_display) = None
   \<and> (\<forall>j \<in> {0 + 1..<1}. indexOf (line_text ex_order j) (right bracket_dollar_display) = None)"
  by (simp add: ex_order_lines bracket_dollar_display_def)

lemma opts_inline_only_unopened:
  "\<forall>d' \<in> set (delimiters opts_inline_only).
     display d' \<longrightarrow> \<not> startsWith (line_text ex_order 0) (left d')"
  by (simp add: opts_inline_only_def bracket_inline_def)

theorem block_pair_selection_witness:
  "mathBlockRule opts_order katex_echo ex_order 0 1 False =
     (True, ex_order\<lparr>tokens := [block_token [0x61, 0x5C, 0x29, 0x62] 0 1], line := 1\<rparr>, [])
   \<and> mathBlockRule opts_order katex_echo ex_order 0 1 True = (True, ex_order, [])
   \<and> mathBlockRule opts_order katex_echo ex_order 0 1 False =
       mathBlockRule \<lparr>delimiters = [display_pair]\<rparr> katex_echo ex_order 0 1 False
   \<and> mathBlockRule opts_trailing_first katex_echo ex_order 0 1 True = (False, ex_order, [])
   \<and> mathBlockRule opts_unclosed_first katex_echo ex_order 0 1 True = (False, ex_order, [])
   \<and> mathBlockRule opts_inline_only katex_echo ex_order 0 1 True = (False, ex_order, [])"
proof (intro conjI)
  note sel = opts_order_display ex_order_skips ex_order_opens(1)
  have "mathBlockRule opts_order katex_echo ex_order 0 1 False =
      (if False then (True, ex_order, [])
       else (case katex_echo (trim (captured ex_order display_pair 0 0 4))
                    display_katex_options of
               Inl e \<Rightarrow> (False, ex_order, [(''KaTeX block rendering error:'', e)])
             | Inr renderedContent \<Rightarrow>
                 (True,
                  ex_order\<lparr>tokens := tokens ex_order @ [block_token renderedContent 0 (0 + 1)],
                     line := 0 + 1\<rparr>,
                  [])))"
    using block_pair_selection [where opts = opts_order and dsa = "[dollar_display]"
        and d = display_pair and dsb = "[bracket_paren_display]" and st = ex_order
        and startLine = 0 and endLine = 1 and k = 0 and rp = 4 and katex = katex_echo
        and silent = False]
      sel ex_order_closes
    by blast
  then show "mathBlockRule opts_order katex_echo ex_order 0 1 False =
     (True, ex_order\<lparr>tokens := [block_token [0x61, 0x5C, 0x29, 0x62] 0 1], line := 1\<rparr>, [])"
    by (simp add: ex_order_captured katex_echo_def ex_order_tokens)
  have "mathBlockRule opts_order katex_echo ex_order 0 1 True =
      (if True then (True, ex_order, [])
       else (case katex_echo (trim (captured ex_order display_pair 0 0 4))
                    display_katex_options of
               Inl e \<Rightarrow> (False, ex_order, [(''KaTeX block rendering error:'', e)])
             | Inr renderedContent \<Rightarrow>
                 (True,
                  ex_order\<lparr>tokens := tokens ex_order @ [block_token renderedContent 0 (0 + 1)],
                     line := 0 + 1\<rparr>,
                  [])))"
    using block_pair_selection [where opts = opts_order and dsa = "[dollar_display]"
        and d = display_pair and dsb = "[bracket_paren_display]" and st = ex_order
        and startLine = 0 and endLine = 1 and k = 0 and rp = 4 and katex = katex_echo
        and silent = True]
      sel ex_order_closes
    by blast
  then show "mathBlockRule opts_order katex_echo ex_order 0 1 True = (True, ex_order, [])"
    by simp
  show "mathBlockRule opts_order katex_echo ex_order 0 1 False =
       mathBlockRule \<lparr>delimiters = [display_pair]\<rparr> katex_echo ex_order 0 1 False"
    using block_pair_selection [where opts = opts_order and dsa = "[dollar_display]"
        and d = display_pair and dsb = "[bracket_paren_display]" and st = ex_order
        and startLine = 0 and endLine = 1 and katex = katex_echo and silent = False]
      sel
    by blast
  have none: "\<forall>d' \<in> set []. \<not> startsWith (line_text ex_order 0) (left d')"
    by simp
  show "mathBlockRule opts_trailing_first katex_echo ex_order 0 1 True = (False, ex_order, [])"
    using block_pair_selection [where opts = opts_trailing_first and dsa = "[]"
        and d = bracket_paren_display and dsb = "[display_pair]" and st = ex_order
        and startLine = 0 and endLine = 1 and k = 0 and rp = 1 and katex = katex_echo
        and silent = True]
      opts_trailing_first_display none ex_order_opens(2) ex_order_closes_early
    by blast
  show "mathBlockRule opts_unclosed_first katex_echo ex_order 0 1 True = (False, ex_order, [])"
    using block_pair_selection [where opts = opts_unclosed_first and dsa = "[]"
        and d = bracket_dollar_display and dsb = "[display_pair]" and st = ex_order
        and startLine = 0 and endLine = 1 and katex = katex_echo and silent = True]
      opts_unclosed_first_display none ex_order_opens(3) ex_order_never_closes
    by blast
  show "mathBlockRule opts_inline_only katex_echo ex_order 0 1 True = (False, ex_order, [])"
    using block_pair_selection [where opts = opts_inline_only and st = ex_order
        and startLine = 0 and endLine = 1 and katex = katex_echo and silent = True]
      opts_inline_only_unopened
    by blast
qed

section \<open>The renderer's pass-through\<close>

text \<open>Claim C9. After registration the renderer table maps the block-math kind to
  \<open>mathBlockRenderer\<close>, and on every token stream and every index of a token in it that
  renderer returns the content stored on the token, unchanged.\<close>

theorem block_renderer_is_identity:
  assumes "plugin katex md options_arg = Inr md'" and "idx < length toks"
  shows "renderer_rules md' ''math_block'' = Some mathBlockRenderer
         \<and> mathBlockRenderer toks idx = Inr (content (toks ! idx))"
proof
  from assms(1) show "renderer_rules md' ''math_block'' = Some mathBlockRenderer"
    by (auto simp: plugin_def Let_def split: sum.splits)
  from assms(2) show "mathBlockRenderer toks idx = Inr (content (toks ! idx))"
    by (simp add: mathBlockRenderer_def at_index_def)
qed

lemma host_md_plugin:
  "plugin katex_echo host_md None =
     Inr (host_md\<lparr>block_ruler := [(''math_block'', mathBlockRule defaultOptions katex_echo),
                                   (''fence'', host_block_rule)],
               inline_ruler := [(''text'', host_inline_rule),
                                (''math_inline'', mathInlineRule defaultOptions katex_echo)],
               renderer_rules := (renderer_rules host_md)(''math_block'' \<mapsto> mathBlockRenderer)\<rparr>)"
  by (simp add: plugin_def ruler_before_def ruler_after_def host_md_def)

theorem block_renderer_is_identity_witness:
  "mathBlockRenderer [block_token [0x78, 0x2B, 0x79] 0 3] 0 = Inr [0x78, 0x2B, 0x79]
   \<and> (\<exists>md'. plugin katex_echo host_md None = Inr md'
          \<and> renderer_rules md' ''math_block'' = Some mathBlockRenderer)"
  using block_renderer_is_identity [OF host_md_plugin, where toks = "[block_token [0x78, 0x2B, 0x79] 0 3]"
      and idx = 0]
    host_md_plugin
  by (simp add: block_token_def)

end
